theory Spec2Isabelle
  imports Main
begin

section \<open>Python values used by the FCM testing script\<close>

text \<open>
  A Python \<open>str\<close> is a sequence of Unicode code points, so it is modelled as a list of
  code points; slicing \<open>s[:n]\<close> is \<open>take n\<close>. The ASCII literals of the source are
  written with \<open>py\<close>; the few non-ASCII characters of the source are given by number.
\<close>

type_synonym ustr = "nat list"

definition py :: "string \<Rightarrow> ustr" where
  "py s = map of_char s"

text \<open>
  The value \<open>response.json()\<close> returns: \<open>None\<close>, a bool, an int, a float (mantissa and
  binary exponent; the script never computes with numbers), a str, a list or a dict.
  A dict is its list of items in insertion order; a key is looked up with \<open>map_of\<close>.
\<close>

datatype json =
    JNull
  | JBool bool
  | JInt int
  | JFloat int int
  | JStr ustr
  | JArr "json list"
  | JObj "(ustr \<times> json) list"

text \<open>
  The exceptions the script can meet. All of them derive from \<open>Exception\<close>.
  \<open>RequestError\<close> stands for whatever \<open>requests.post\<close> raises (connection refused,
  timeout, DNS failure, invalid URL), with its message; \<open>UnicodeEncodeError\<close> is
  raised by \<open>print\<close> for text that standard output cannot encode.
\<close>

datatype exn =
    RequestError ustr
  | JSONDecodeError
  | TypeError
  | KeyError ustr
  | AttributeError
  | UnicodeEncodeError

text \<open>\<open>len(v)\<close>: defined on str, list and dict, \<open>TypeError\<close> on every other value.\<close>

fun py_len :: "json \<Rightarrow> exn + nat" where
  "py_len (JStr s) = Inr (length s)"
| "py_len (JArr xs) = Inr (length xs)"
| "py_len (JObj kvs) = Inr (length (remdups (map fst kvs)))"
| "py_len _ = Inl TypeError"

text \<open>Truth value of \<open>if v:\<close>.\<close>

fun py_bool :: "json \<Rightarrow> bool" where
  "py_bool JNull = False"
| "py_bool (JBool b) = b"
| "py_bool (JInt i) = (i \<noteq> 0)"
| "py_bool (JFloat m e) = (m \<noteq> 0)"
| "py_bool (JStr s) = (s \<noteq> [])"
| "py_bool (JArr xs) = (xs \<noteq> [])"
| "py_bool (JObj kvs) = (kvs \<noteq> [])"

text \<open>
  \<open>v[:n]\<close>: a str or a list gives its first \<open>n\<close> items (all of them when there are
  fewer); a dict cannot be sliced (\<open>TypeError\<close>, a \<open>KeyError\<close> from Python 3.12 on: an
  \<open>Exception\<close> either way); the other values are not subscriptable.
\<close>

fun py_slice :: "nat \<Rightarrow> json \<Rightarrow> exn + json" where
  "py_slice n (JStr s) = Inr (JStr (take n s))"
| "py_slice n (JArr xs) = Inr (JArr (take n xs))"
| "py_slice n _ = Inl TypeError"

text \<open>
  \<open>v[k]\<close> with a str key \<open>k\<close>: a dict gives the value or raises \<open>KeyError\<close>; a str or a
  list wants an integer index and the other values are not subscriptable (\<open>TypeError\<close>).
\<close>

fun py_getitem :: "json \<Rightarrow> ustr \<Rightarrow> exn + json" where
  "py_getitem (JObj kvs) k = (case map_of kvs k of None \<Rightarrow> Inl (KeyError k) | Some v \<Rightarrow> Inr v)"
| "py_getitem _ k = Inl TypeError"

text \<open>\<open>v.get(k, d)\<close>: only a dict has the method.\<close>

fun py_get :: "json \<Rightarrow> ustr \<Rightarrow> json \<Rightarrow> exn + json" where
  "py_get (JObj kvs) k d = (case map_of kvs k of None \<Rightarrow> Inr d | Some v \<Rightarrow> Inr v)"
| "py_get _ k d = Inl AttributeError"

text \<open>
  The items a \<open>for\<close> loop visits: the elements of a list, the one-character strings of a
  str, the keys of a dict; the other values are not iterable.
\<close>

fun py_iter :: "json \<Rightarrow> exn + json list" where
  "py_iter (JArr xs) = Inr xs"
| "py_iter (JStr s) = Inr (map (\<lambda>c. JStr [c]) s)"
| "py_iter (JObj kvs) = Inr (map JStr (remdups (map fst kvs)))"
| "py_iter _ = Inl TypeError"

text \<open>\<open>str(i)\<close> for an int \<open>i\<close>.\<close>

fun str_nat :: "nat \<Rightarrow> ustr" where
  "str_nat n = (if n < 10 then [48 + n] else str_nat (n div 10) @ [48 + n mod 10])"

definition str_int :: "int \<Rightarrow> ustr" where
  "str_int i = (if i < 0 then 45 # str_nat (nat (- i)) else str_nat (nat i))"

section \<open>The world the script acts on\<close>

text \<open>
  One HTTP POST: the URL, the headers and the \<open>json=\<close> argument (\<open>None\<close> when absent).
\<close>

record request =
  url :: ustr
  req_headers :: "(ustr \<times> ustr) list"
  payload :: "json option"

text \<open>
  What the script reads of a \<open>requests.Response\<close>: \<open>status_code\<close>, \<open>text\<close> and the
  result of \<open>json()\<close> (\<open>None\<close> when the body is not JSON and \<open>json()\<close> raises).
\<close>

record response =
  status_code :: int
  resp_text :: ustr
  json_body :: "json option"

text \<open>
  A printed line is the f-string that produced it: literal text (\<open>T\<close>), a non-ASCII
  character of the literal (\<open>U\<close>), and the interpolated values: an int (\<open>I\<close>), a str
  (\<open>S\<close>), a value of the response body (\<open>V\<close>, rendered by \<open>str()\<close>) or an exception
  (\<open>E\<close>). \<open>print()\<close> without argument is the empty list.
\<close>

datatype frag = T string | U nat | I int | S ustr | V json | E exn

type_synonym line = "frag list"

text \<open>
  Standard output encodes text as UTF-8 with the strict error handler: every code
  point can be written except a lone surrogate (U+D800 to U+DFFF). A string of a
  parsed JSON body can hold one (from the escape \<open>\ud800\<close>). In an f-string a str is
  inserted as it is; a list or a dict is inserted by its \<open>repr\<close>, which escapes the
  surrogates of the strings inside, and so are the keys in the message of a
  \<open>KeyError\<close>; the messages of the other exceptions of the interpreter are ASCII.
\<close>

definition encodable :: "ustr \<Rightarrow> bool" where
  "encodable s = list_all (\<lambda>c. c < 0xD800 \<or> 0xDFFF < c) s"

fun printable :: "json \<Rightarrow> bool" where
  "printable (JStr s) = encodable s"
| "printable _ = True"

fun exn_ok :: "exn \<Rightarrow> bool" where
  "exn_ok (RequestError m) = encodable m"
| "exn_ok _ = True"

fun frag_ok :: "frag \<Rightarrow> bool" where
  "frag_ok (T s) = True"
| "frag_ok (U c) = encodable [c]"
| "frag_ok (I i) = True"
| "frag_ok (S s) = encodable s"
| "frag_ok (V v) = printable v"
| "frag_ok (E e) = exn_ok e"

definition line_ok :: "line \<Rightarrow> bool" where
  "line_ok l = list_all frag_ok l"

record world =
  requests :: "request list"
  out :: "line list"

text \<open>
  The environment: the backend answers a request, knowing the requests made before it,
  with a response or with a transport fault; \<open>unix_time\<close> is the value of
  \<open>int(time.time())\<close>.
\<close>

record env =
  backend :: "request list \<Rightarrow> request \<Rightarrow> exn + response"
  unix_time :: int

text \<open>
  A block of statements that may raise: it returns the exception or the value, and the
  world as it is at that point (what was printed before an exception stays printed).
\<close>

type_synonym 'a io = "world \<Rightarrow> (exn + 'a) \<times> world"

definition ret :: "'a \<Rightarrow> 'a io" where
  "ret x = (\<lambda>w. (Inr x, w))"

definition lift :: "exn + 'a \<Rightarrow> 'a io" where
  "lift r = (\<lambda>w. (r, w))"

definition bnd :: "'a io \<Rightarrow> ('a \<Rightarrow> 'b io) \<Rightarrow> 'b io" where
  "bnd m f = (\<lambda>w. case m w of (Inl e, w') \<Rightarrow> (Inl e, w') | (Inr x, w') \<Rightarrow> f x w')"

definition thn :: "unit io \<Rightarrow> 'b io \<Rightarrow> 'b io" where
  "thn m k = bnd m (\<lambda>_. k)"

text \<open>
  \<open>print(line)\<close>: the line is written when standard output can encode it; otherwise
  nothing is written and \<open>UnicodeEncodeError\<close> is raised. \<open>println\<close> is the effect of
  a \<open>print\<close> that succeeds.
\<close>

definition println :: "line \<Rightarrow> world \<Rightarrow> world" where
  "println l w = w\<lparr>out := out w @ [l]\<rparr>"

definition print :: "line \<Rightarrow> unit io" where
  "print l = (\<lambda>w. if line_ok l then (Inr (), println l w) else (Inl UnicodeEncodeError, w))"

text \<open>\<open>requests.post(url, headers=h, json=p)\<close>: the request is recorded, then answered.\<close>

definition requests_post :: "env \<Rightarrow> ustr \<Rightarrow> (ustr \<times> ustr) list \<Rightarrow> json option \<Rightarrow> response io" where
  "requests_post env u h p =
     (\<lambda>w. let req = \<lparr>url = u, req_headers = h, payload = p\<rparr>
          in (backend env (requests w) req, w\<lparr>requests := requests w @ [req]\<rparr>))"

text \<open>\<open>response.json()\<close>.\<close>

definition response_json :: "response \<Rightarrow> json io" where
  "response_json r = lift (case json_body r of None \<Rightarrow> Inl JSONDecodeError | Some v \<Rightarrow> Inr v)"

text \<open>
  \<open>try: body / except Exception as e: print(msg); return False\<close>, for a body that ends
  in \<open>return\<close> on every path. \<open>try_catch\<close> is the statement as Python runs it: the
  handler's \<open>print\<close> is outside the \<open>try\<close>, and what it raises leaves the method.
  \<open>try_except\<close> is the statement in a run where the handler's line can be encoded,
  that is where the message of a transport fault holds no lone surrogate.
\<close>

definition try_catch :: "bool io \<Rightarrow> (exn \<Rightarrow> line) \<Rightarrow> bool io" where
  "try_catch body msg =
     (\<lambda>w. case body w of
        (Inr b, w') \<Rightarrow> (Inr b, w')
      | (Inl e, w') \<Rightarrow> thn (print (msg e)) (ret False) w')"

definition try_except :: "bool io \<Rightarrow> (exn \<Rightarrow> line) \<Rightarrow> world \<Rightarrow> bool \<times> world" where
  "try_except body msg w =
     (case body w of
        (Inr b, w') \<Rightarrow> (b, w')
      | (Inl e, w') \<Rightarrow> (False, println (msg e) w'))"

text \<open>\<open>for i, x in enumerate(xs): body\<close>, with \<open>i\<close> counted from the given start.\<close>

fun for_enumerate :: "(nat \<Rightarrow> json \<Rightarrow> unit io) \<Rightarrow> nat \<Rightarrow> json list \<Rightarrow> unit io" where
  "for_enumerate body i [] = ret ()"
| "for_enumerate body i (x # xs) = thn (body i x) (for_enumerate body (Suc i) xs)"

section \<open>The class \<open>FCMTester\<close>\<close>

record FCMTester =
  supabase_url :: ustr
  supabase_anon_key :: ustr
  headers :: "(ustr \<times> ustr) list"

text \<open>\<open>s.rstrip('/')\<close>: the code point of \<open>/\<close> is 47.\<close>

definition rstrip_slash :: "ustr \<Rightarrow> ustr" where
  "rstrip_slash s = rev (dropWhile (\<lambda>c. c = 47) (rev s))"

definition FCMTester_init :: "ustr \<Rightarrow> ustr \<Rightarrow> FCMTester" where
  "FCMTester_init a_url a_key =
     \<lparr>supabase_url = rstrip_slash a_url,
      supabase_anon_key = a_key,
      headers = [(py ''apikey'', a_key),
                 (py ''Authorization'', py ''Bearer '' @ a_key),
                 (py ''Content-Type'', py ''application/json'')]\<rparr>"

subsection \<open>\<open>test_edge_function_health\<close>\<close>

definition test_edge_function_health_try :: "env \<Rightarrow> FCMTester \<Rightarrow> bool io" where
  "test_edge_function_health_try env self =
     bnd (requests_post env
            (supabase_url self @ py ''/functions/v1/send-test-notification'')
            (headers self)
            (Some (JObj [(py ''test'', JStr (py ''health_check''))])))
       (\<lambda>response.
          if status_code response \<in> set [200, 400] then
            thn (print [U 0x2705, T '' Edge function is accessible''])
                (ret True)
          else
            thn (print [U 0x274C, T '' Edge function returned unexpected status: '',
                        I (status_code response)])
           (thn (print [T ''Response: '', S (resp_text response)])
                (ret False)))"

text \<open>
  Each method is given twice. \<open>test_edge_function_health_call\<close> is the method as
  Python runs it: every \<open>print\<close> may raise, and the opening \<open>print\<close> and the handler's
  are outside the \<open>try\<close>. \<open>test_edge_function_health\<close> is the method in a run where
  these two lines can be encoded (the command-line strings and the message of a
  transport fault hold no lone surrogate): it returns its boolean. \<open>main\<close> is modelled
  for such runs. The same holds for the other three methods.
\<close>

definition test_edge_function_health_call :: "env \<Rightarrow> FCMTester \<Rightarrow> bool io" where
  "test_edge_function_health_call env self =
     thn (print [U 0x1F50D, T '' Testing edge function health...''])
         (try_catch (test_edge_function_health_try env self)
            (\<lambda>e. [U 0x274C, T '' Error testing edge function: '', E e]))"

definition test_edge_function_health :: "env \<Rightarrow> FCMTester \<Rightarrow> world \<Rightarrow> bool \<times> world" where
  "test_edge_function_health env self w =
     try_except (test_edge_function_health_try env self)
       (\<lambda>e. [U 0x274C, T '' Error testing edge function: '', E e])
       (println [U 0x1F50D, T '' Testing edge function health...''] w)"

subsection \<open>\<open>test_token_registration\<close>\<close>

text \<open>The body of the loop over the first five records.\<close>

definition show_active_token :: "nat \<Rightarrow> json \<Rightarrow> unit io" where
  "show_active_token i token =
     bnd (lift (py_getitem token (py ''user_id''))) (\<lambda>user_id.
     thn (print [T ''  '', I (int i + 1), T ''. User: '', V user_id])
    (bnd (lift (py_getitem token (py ''token''))) (\<lambda>tok.
     bnd (lift (py_slice 20 tok)) (\<lambda>tok20.
     thn (print [T ''     Token: '', V tok20, T ''...''])
    (bnd (lift (py_getitem token (py ''device_id''))) (\<lambda>device_id.
     thn (print [T ''     Device: '', V device_id])
    (bnd (lift (py_getitem token (py ''platform''))) (\<lambda>platform.
     thn (print [T ''     Platform: '', V platform])
    (bnd (lift (py_getitem token (py ''updated_at''))) (\<lambda>updated_at.
     thn (print [T ''     Updated: '', V updated_at])
         (print [])))))))))))"

definition test_token_registration_try :: "env \<Rightarrow> FCMTester \<Rightarrow> bool io" where
  "test_token_registration_try env self =
     bnd (requests_post env
            (supabase_url self @ py ''/rest/v1/rpc/get_all_active_fcm_tokens'')
            (headers self)
            None)
       (\<lambda>response.
          if status_code response = 200 then
            bnd (response_json response) (\<lambda>tokens.
            bnd (lift (py_len tokens)) (\<lambda>n.
            thn (print [U 0x2705, T '' Found '', I (int n),
                        T '' active FCM tokens in database''])
           (thn (if py_bool tokens then
                   thn (print [U 10, U 0x1F4F1, T '' Active FCM tokens:''])
                  (bnd (lift (py_slice 5 tokens)) (\<lambda>first5.
                   bnd (lift (py_iter first5)) (\<lambda>items.
                   for_enumerate show_active_token 0 items)))
                 else
                   print [U 0x26A0, U 0xFE0F,
                          T ''  No active FCM tokens found. Make sure to register tokens from your iOS app first.''])
                (ret True))))
          else
            thn (print [U 0x274C, T '' Failed to get FCM tokens: '', I (status_code response)])
           (thn (print [T ''Response: '', S (resp_text response)])
                (ret False)))"

definition test_token_registration_call :: "env \<Rightarrow> FCMTester \<Rightarrow> bool io" where
  "test_token_registration_call env self =
     thn (print [U 0x1F50D, T '' Testing FCM token registration...''])
         (try_catch (test_token_registration_try env self)
            (\<lambda>e. [U 0x274C, T '' Error testing token registration: '', E e]))"

definition test_token_registration :: "env \<Rightarrow> FCMTester \<Rightarrow> world \<Rightarrow> bool \<times> world" where
  "test_token_registration env self w =
     try_except (test_token_registration_try env self)
       (\<lambda>e. [U 0x274C, T '' Error testing token registration: '', E e])
       (println [U 0x1F50D, T '' Testing FCM token registration...''] w)"

subsection \<open>\<open>send_test_notification\<close>\<close>

text \<open>
  \<open>if user_id:\<close> on an \<open>Optional[str]\<close>: the branch is taken for a non-empty string,
  not for \<open>None\<close> and not for the empty string.
\<close>

fun truthy :: "ustr option \<Rightarrow> ustr option" where
  "truthy None = None"
| "truthy (Some u) = (if u = [] then None else Some u)"

text \<open>
  \<open>k in v\<close> for a str \<open>k\<close>: a key of a dict, an element of a list, a substring of a
  str; the other values are not containers.
\<close>

fun starts_with :: "ustr \<Rightarrow> ustr \<Rightarrow> bool" where
  "starts_with [] ys = True"
| "starts_with (x # xs) [] = False"
| "starts_with (x # xs) (y # ys) = (x = y \<and> starts_with xs ys)"

fun is_substring :: "ustr \<Rightarrow> ustr \<Rightarrow> bool" where
  "is_substring xs [] = (xs = [])"
| "is_substring xs (y # ys) = (starts_with xs (y # ys) \<or> is_substring xs ys)"

fun py_in :: "ustr \<Rightarrow> json \<Rightarrow> exn + bool" where
  "py_in k (JObj kvs) = Inr (k \<in> set (map fst kvs))"
| "py_in k (JArr xs) = Inr (JStr k \<in> set xs)"
| "py_in k (JStr s) = Inr (is_substring k s)"
| "py_in k _ = Inl TypeError"

definition notification_payload :: "env \<Rightarrow> ustr option \<Rightarrow> bool \<Rightarrow> json" where
  "notification_payload env user_id test_all_users =
     JObj ([(py ''title'', JStr (0x1F9EA # py '' Test Notification'')),
            (py ''body'', JStr (py ''This is a test notification from the FCM testing script'')),
            (py ''type'', JStr (py ''test'')),
            (py ''data'', JObj [(py ''test_id'', JStr (py ''test_'' @ str_int (unix_time env))),
                                (py ''source'', JStr (py ''testing_script''))])]
           @ (case truthy user_id of Some u \<Rightarrow> [(py ''user_id'', JStr u)] | None \<Rightarrow> [])
           @ (if test_all_users then [(py ''test_all_users'', JBool True)] else []))"

text \<open>The body of the loop over the first three per-device results.\<close>

definition show_result :: "nat \<Rightarrow> json \<Rightarrow> unit io" where
  "show_result i res =
     bnd (lift (py_getitem res (py ''device_id''))) (\<lambda>device_id.
     bnd (lift (py_getitem res (py ''platform''))) (\<lambda>platform.
     thn (print [T ''     '', I (int i + 1), T ''. Device: '', V device_id,
                 T '' ('', V platform, T '')''])
    (bnd (lift (py_getitem res (py ''token''))) (\<lambda>tok.
     print [T ''        Token: '', V tok]))))"

definition show_summary :: "json \<Rightarrow> unit io" where
  "show_summary summary =
     thn (print [U 10, U 0x1F4CA, T '' Summary:''])
    (bnd (lift (py_get summary (py ''total_tokens'') (JStr (py ''N/A'')))) (\<lambda>total_tokens.
     thn (print [T ''   Total tokens: '', V total_tokens])
    (bnd (lift (py_get summary (py ''notification_type'') (JStr (py ''N/A'')))) (\<lambda>notification_type.
     thn (print [T ''   Type: '', V notification_type])
    (bnd (lift (py_get summary (py ''title'') (JStr (py ''N/A'')))) (\<lambda>title.
     thn (print [T ''   Title: '', V title])
    (bnd (lift (py_get summary (py ''body'') (JStr (py ''N/A'')))) (\<lambda>body.
     print [T ''   Body: '', V body]))))))))"

definition send_test_notification_try :: "env \<Rightarrow> FCMTester \<Rightarrow> json \<Rightarrow> bool io" where
  "send_test_notification_try env self payload_json =
     bnd (requests_post env
            (supabase_url self @ py ''/functions/v1/send-test-notification'')
            (headers self)
            (Some payload_json))
       (\<lambda>response.
          if status_code response = 200 then
            bnd (response_json response) (\<lambda>result.
            thn (print [U 0x2705, T '' Test notification sent successfully!''])
           (bnd (lift (py_get result (py ''message'') (JStr (py ''No message'')))) (\<lambda>message.
            thn (print [T ''   Message: '', V message])
           (bnd (lift (py_in (py ''results'') result)) (\<lambda>has_results.
            thn (if has_results then
                   bnd (lift (py_getitem result (py ''results''))) (\<lambda>results.
                   bnd (lift (py_len results)) (\<lambda>n.
                   thn (print [T ''   Sent to '', I (int n), T '' device(s)''])
                  (bnd (lift (py_slice 3 results)) (\<lambda>first3.
                   bnd (lift (py_iter first3)) (\<lambda>items.
                   for_enumerate show_result 0 items)))))
                 else ret ())
           (bnd (lift (py_in (py ''summary'') result)) (\<lambda>has_summary.
            thn (if has_summary then
                   bnd (lift (py_getitem result (py ''summary''))) show_summary
                 else ret ())
                (ret True))))))))
          else
            thn (print [U 0x274C, T '' Failed to send test notification: '',
                        I (status_code response)])
           (thn (print [T ''Response: '', S (resp_text response)])
                (ret False)))"

definition send_test_notification_call ::
  "env \<Rightarrow> FCMTester \<Rightarrow> ustr option \<Rightarrow> bool \<Rightarrow> bool io" where
  "send_test_notification_call env self user_id test_all_users =
     (let rest = try_catch
                   (send_test_notification_try env self
                      (notification_payload env user_id test_all_users))
                   (\<lambda>e. [U 0x274C, T '' Error sending test notification: '', E e])
      in thn (print [U 0x1F4E4, T '' Sending test notification...''])
          (case truthy user_id of
             Some u \<Rightarrow> thn (print [T ''   Target: User '', S u]) rest
           | None \<Rightarrow>
               if test_all_users then thn (print [T ''   Target: All users'']) rest
               else thn (print [U 0x274C,
                          T '' Either user_id or test_all_users must be specified''])
                        (ret False)))"

definition send_test_notification ::
  "env \<Rightarrow> FCMTester \<Rightarrow> ustr option \<Rightarrow> bool \<Rightarrow> world \<Rightarrow> bool \<times> world" where
  "send_test_notification env self user_id test_all_users w =
     (let w1 = println [U 0x1F4E4, T '' Sending test notification...''] w;
          rest = try_except
                   (send_test_notification_try env self
                      (notification_payload env user_id test_all_users))
                   (\<lambda>e. [U 0x274C, T '' Error sending test notification: '', E e])
      in case truthy user_id of
           Some u \<Rightarrow> rest (println [T ''   Target: User '', S u] w1)
         | None \<Rightarrow>
             if test_all_users then rest (println [T ''   Target: All users''] w1)
             else (False, println [U 0x274C,
                     T '' Either user_id or test_all_users must be specified''] w1))"

subsection \<open>\<open>get_user_fcm_tokens\<close>\<close>

text \<open>The body of the loop over all records of the user.\<close>

definition show_user_token :: "nat \<Rightarrow> json \<Rightarrow> unit io" where
  "show_user_token i token =
     bnd (lift (py_getitem token (py ''token''))) (\<lambda>tok.
     bnd (lift (py_slice 20 tok)) (\<lambda>tok20.
     thn (print [T ''  '', I (int i + 1), T ''. Token: '', V tok20, T ''...''])
    (bnd (lift (py_getitem token (py ''device_id''))) (\<lambda>device_id.
     thn (print [T ''     Device: '', V device_id])
    (bnd (lift (py_getitem token (py ''platform''))) (\<lambda>platform.
     thn (print [T ''     Platform: '', V platform])
    (bnd (lift (py_getitem token (py ''app_version''))) (\<lambda>app_version.
     thn (print [T ''     App Version: '', V app_version])
    (bnd (lift (py_getitem token (py ''updated_at''))) (\<lambda>updated_at.
     thn (print [T ''     Updated: '', V updated_at])
         (print [])))))))))))"

definition get_user_fcm_tokens_try :: "env \<Rightarrow> FCMTester \<Rightarrow> ustr \<Rightarrow> bool io" where
  "get_user_fcm_tokens_try env self user_id =
     bnd (requests_post env
            (supabase_url self @ py ''/rest/v1/rpc/get_user_fcm_tokens'')
            (headers self)
            (Some (JObj [(py ''p_user_id'', JStr user_id)])))
       (\<lambda>response.
          if status_code response = 200 then
            bnd (response_json response) (\<lambda>tokens.
            bnd (lift (py_len tokens)) (\<lambda>n.
            thn (print [U 0x2705, T '' Found '', I (int n), T '' FCM tokens for user '',
                        S user_id])
           (bnd (lift (py_iter tokens)) (\<lambda>items.
            thn (for_enumerate show_user_token 0 items)
                (ret True)))))
          else
            thn (print [U 0x274C, T '' Failed to get user FCM tokens: '',
                        I (status_code response)])
           (thn (print [T ''Response: '', S (resp_text response)])
                (ret False)))"

definition get_user_fcm_tokens_call :: "env \<Rightarrow> FCMTester \<Rightarrow> ustr \<Rightarrow> bool io" where
  "get_user_fcm_tokens_call env self user_id =
     thn (print [U 0x1F50D, T '' Getting FCM tokens for user: '', S user_id])
         (try_catch (get_user_fcm_tokens_try env self user_id)
            (\<lambda>e. [U 0x274C, T '' Error getting user FCM tokens: '', E e]))"

definition get_user_fcm_tokens :: "env \<Rightarrow> FCMTester \<Rightarrow> ustr \<Rightarrow> world \<Rightarrow> bool \<times> world" where
  "get_user_fcm_tokens env self user_id w =
     try_except (get_user_fcm_tokens_try env self user_id)
       (\<lambda>e. [U 0x274C, T '' Error getting user FCM tokens: '', E e])
       (println [U 0x1F50D, T '' Getting FCM tokens for user: '', S user_id] w)"

section \<open>The command line: \<open>main\<close>\<close>

text \<open>The namespace \<open>parser.parse_args()\<close> returns.\<close>

record args =
  arg_supabase_url :: ustr
  arg_supabase_key :: ustr
  arg_test_token_registration :: bool
  arg_test_edge_function :: bool
  arg_send_test_notification :: bool
  arg_user_id :: "ustr option"
  arg_test_all_users :: bool
  arg_get_user_tokens :: "ustr option"
  arg_run_all_tests :: bool

text \<open>
  The local variables \<open>success_count\<close> and \<open>total_tests\<close>, with the world. \<open>run_test\<close>
  is the pattern \<open>total_tests += 1; if op(): success_count += 1\<close>, and \<open>blank\<close> the
  statement \<open>print()\<close>.
\<close>

type_synonym tally = "nat \<times> nat \<times> world"

definition run_test :: "(world \<Rightarrow> bool \<times> world) \<Rightarrow> tally \<Rightarrow> tally" where
  "run_test operation st =
     (case st of (success_count, total_tests, w) \<Rightarrow>
        (case operation w of (ok, w') \<Rightarrow>
           (if ok then success_count + 1 else success_count, total_tests + 1, w')))"

definition blank :: "tally \<Rightarrow> tally" where
  "blank st = (case st of (success_count, total_tests, w) \<Rightarrow>
                 (success_count, total_tests, println [] w))"

text \<open>The tests of \<open>main\<close>, up to the summary.\<close>

definition main_tests :: "env \<Rightarrow> args \<Rightarrow> world \<Rightarrow> tally" where
  "main_tests env a w =
     (let tester = FCMTester_init (arg_supabase_url a) (arg_supabase_key a) in
      if arg_run_all_tests a then
        let st0 = (0, 0, println [U 0x1F680, T '' Running all FCM tests...'', U 10] w);
            st1 = blank (run_test (test_edge_function_health env tester) st0);
            st2 = blank (run_test (test_token_registration env tester) st1);
            st3 = blank (run_test (send_test_notification env tester None True) st2)
        in st3
      else
        let st0 = (0, 0, w);
            st1 = (if arg_test_edge_function a
                   then run_test (test_edge_function_health env tester) st0 else st0);
            st2 = (if arg_test_token_registration a
                   then run_test (test_token_registration env tester) st1 else st1);
            st3 = (if arg_send_test_notification a
                   then run_test (send_test_notification env tester
                                    (arg_user_id a) (arg_test_all_users a)) st2
                   else st2);
            st4 = (case truthy (arg_get_user_tokens a) of
                     Some u \<Rightarrow> run_test (get_user_fcm_tokens env tester u) st3
                   | None \<Rightarrow> st3)
        in st4)"

text \<open>\<open>main\<close> returns the exit status of the process and the final world.\<close>

definition main :: "env \<Rightarrow> args \<Rightarrow> world \<Rightarrow> int \<times> world" where
  "main env a w =
     (case main_tests env a w of (success_count, total_tests, w1) \<Rightarrow>
        let w2 = println [U 10, U 0x1F4CA, T '' Test Results: '', I (int success_count),
                          T ''/'', I (int total_tests), T '' tests passed''] w1
        in if success_count = total_tests
           then (0, println [U 0x1F389, T '' All tests passed!''] w2)
           else (1, println [U 0x274C,
                   T '' Some tests failed. Check the output above for details.''] w2))"

section \<open>Operations, requests and plans\<close>

text \<open>
  The four operations of the tester as values, with the arguments of the call, and the
  method call each one stands for.
\<close>

datatype operation =
    Health
  | TokenRegistration
  | Send "ustr option" bool
  | UserTokens ustr

fun perform :: "env \<Rightarrow> FCMTester \<Rightarrow> operation \<Rightarrow> world \<Rightarrow> bool \<times> world" where
  "perform env self Health = test_edge_function_health env self"
| "perform env self TokenRegistration = test_token_registration env self"
| "perform env self (Send user_id test_all_users) =
     send_test_notification env self user_id test_all_users"
| "perform env self (UserTokens user_id) = get_user_fcm_tokens env self user_id"

text \<open>The same calls as Python runs them, and the conditions under which the two agree:
  the command-line strings an operation prints, and the message of the transport
  fault that answers its request, hold no lone surrogate.\<close>

fun perform_call :: "env \<Rightarrow> FCMTester \<Rightarrow> operation \<Rightarrow> bool io" where
  "perform_call env self Health = test_edge_function_health_call env self"
| "perform_call env self TokenRegistration = test_token_registration_call env self"
| "perform_call env self (Send user_id test_all_users) =
     send_test_notification_call env self user_id test_all_users"
| "perform_call env self (UserTokens user_id) = get_user_fcm_tokens_call env self user_id"

fun op_text_ok :: "operation \<Rightarrow> bool" where
  "op_text_ok Health = True"
| "op_text_ok TokenRegistration = True"
| "op_text_ok (Send user_id test_all_users) =
     (case truthy user_id of Some u \<Rightarrow> encodable u | None \<Rightarrow> True)"
| "op_text_ok (UserTokens user_id) = encodable user_id"


text \<open>
  The request an operation is expected to send: none for a notification without
  target, one for every other call. Lemma \<open>perform_requests\<close> below shows that this is
  what the methods do.
\<close>

fun request_of :: "env \<Rightarrow> FCMTester \<Rightarrow> operation \<Rightarrow> request option" where
  "request_of env self Health =
     Some \<lparr>url = supabase_url self @ py ''/functions/v1/send-test-notification'',
           req_headers = headers self,
           payload = Some (JObj [(py ''test'', JStr (py ''health_check''))])\<rparr>"
| "request_of env self TokenRegistration =
     Some \<lparr>url = supabase_url self @ py ''/rest/v1/rpc/get_all_active_fcm_tokens'',
           req_headers = headers self,
           payload = None\<rparr>"
| "request_of env self (Send user_id test_all_users) =
     (if truthy user_id = None \<and> \<not> test_all_users then None
      else Some \<lparr>url = supabase_url self @ py ''/functions/v1/send-test-notification'',
                 req_headers = headers self,
                 payload = Some (notification_payload env user_id test_all_users)\<rparr>)"
| "request_of env self (UserTokens user_id) =
     Some \<lparr>url = supabase_url self @ py ''/rest/v1/rpc/get_user_fcm_tokens'',
           req_headers = headers self,
           payload = Some (JObj [(py ''p_user_id'', JStr user_id)])\<rparr>"

text \<open>
  Running a list of operations one after the other, each whatever the outcomes of the
  earlier ones, with \<open>after\<close> done after each; the result is the list of outcomes and
  the final world. \<open>tally_of\<close> counts the passed and the executed operations.
\<close>

fun run_operations ::
  "(world \<Rightarrow> world) \<Rightarrow> (operation \<Rightarrow> world \<Rightarrow> bool \<times> world) \<Rightarrow> operation list \<Rightarrow> world
     \<Rightarrow> bool list \<times> world" where
  "run_operations after f [] w = ([], w)"
| "run_operations after f (x # xs) w =
     (case f x w of (ok, w1) \<Rightarrow>
        (case run_operations after f xs (after w1) of (oks, w2) \<Rightarrow> (ok # oks, w2)))"

definition tally_of :: "bool list \<times> world \<Rightarrow> tally" where
  "tally_of r = (case r of (oks, w) \<Rightarrow> (length (filter (\<lambda>ok. ok) oks), length oks, w))"

text \<open>
  The operations of the two modes, as the specification lists them. In
  \<open>selective_plan\<close> the per-user lookup is selected by a non-empty identifier;
  \<open>supplied_plan\<close> selects it whenever the flag was given at all.
\<close>

definition aggregate_plan :: "operation list" where
  "aggregate_plan = [Health, TokenRegistration, Send None True]"

definition selective_plan :: "args \<Rightarrow> operation list" where
  "selective_plan a =
     (if arg_test_edge_function a then [Health] else [])
     @ (if arg_test_token_registration a then [TokenRegistration] else [])
     @ (if arg_send_test_notification a
        then [Send (arg_user_id a) (arg_test_all_users a)] else [])
     @ (case truthy (arg_get_user_tokens a) of Some u \<Rightarrow> [UserTokens u] | None \<Rightarrow> [])"

definition supplied_plan :: "args \<Rightarrow> operation list" where
  "supplied_plan a =
     (if arg_test_edge_function a then [Health] else [])
     @ (if arg_test_token_registration a then [TokenRegistration] else [])
     @ (if arg_send_test_notification a
        then [Send (arg_user_id a) (arg_test_all_users a)] else [])
     @ (case arg_get_user_tokens a of Some u \<Rightarrow> [UserTokens u] | None \<Rightarrow> [])"

text \<open>
  A run as the specification describes it: aggregate mode announces itself and runs the
  aggregate plan with an empty line after each operation; selective mode runs the
  selective plan.
\<close>

definition run_plan :: "env \<Rightarrow> args \<Rightarrow> world \<Rightarrow> bool list \<times> world" where
  "run_plan env a w =
     (let tester = FCMTester_init (arg_supabase_url a) (arg_supabase_key a) in
      if arg_run_all_tests a then
        run_operations (println []) (perform env tester) aggregate_plan
          (println [U 0x1F680, T '' Running all FCM tests...'', U 10] w)
      else
        run_operations (\<lambda>w. w) (perform env tester) (selective_plan a) w)"

text \<open>The field \<open>k\<close> of a record of the response body, when the record has it.\<close>

fun field :: "json \<Rightarrow> ustr \<Rightarrow> json option" where
  "field (JObj kvs) k = map_of kvs k"
| "field _ k = None"

section \<open>Reports of well-formed responses\<close>

text \<open>
  What the reports show for records that have the fields the specification lists in
  its description of the backend interfaces. \<open>shown r k d\<close> is the field \<open>k\<close> of
  \<open>r\<close>, or \<open>d\<close> when \<open>r\<close> has no such field; \<open>token_chars\<close> is the text of a token
  that is a string.
\<close>

definition shown :: "json \<Rightarrow> ustr \<Rightarrow> json \<Rightarrow> json" where
  "shown r k d = (case field r k of Some v \<Rightarrow> v | None \<Rightarrow> d)"

definition has_fields :: "ustr list \<Rightarrow> json \<Rightarrow> bool" where
  "has_fields ks r = list_all (\<lambda>k. field r k \<noteq> None) ks"

definition has_str_token :: "json \<Rightarrow> bool" where
  "has_str_token r = (case field r (py ''token'') of Some (JStr t) \<Rightarrow> True | _ \<Rightarrow> False)"

definition token_chars :: "json \<Rightarrow> ustr" where
  "token_chars r = (case field r (py ''token'') of Some (JStr t) \<Rightarrow> t | _ \<Rightarrow> [])"

text \<open>The fields \<open>ks\<close> of \<open>r\<close> are values that \<open>print\<close> can write.\<close>

definition fields_printable :: "ustr list \<Rightarrow> json \<Rightarrow> bool" where
  "fields_printable ks r = list_all (\<lambda>k. printable (shown r k JNull)) ks"

text \<open>
  A Device Token Record of the token query: it has the five fields the report reads,
  its token is a string, and what the report shows of it can be written. Then its six
  lines in the report.
\<close>

definition is_active_record :: "json \<Rightarrow> bool" where
  "is_active_record r =
     (has_fields [py ''user_id'', py ''token'', py ''device_id'', py ''platform'',
                  py ''updated_at''] r
      \<and> has_str_token r
      \<and> fields_printable [py ''user_id'', py ''device_id'', py ''platform'',
                           py ''updated_at''] r
      \<and> encodable (take 20 (token_chars r)))"

definition active_record_report :: "nat \<Rightarrow> json \<Rightarrow> line list" where
  "active_record_report i r =
     [[T ''  '', I (int i + 1), T ''. User: '', V (shown r (py ''user_id'') JNull)],
      [T ''     Token: '', V (JStr (take 20 (token_chars r))), T ''...''],
      [T ''     Device: '', V (shown r (py ''device_id'') JNull)],
      [T ''     Platform: '', V (shown r (py ''platform'') JNull)],
      [T ''     Updated: '', V (shown r (py ''updated_at'') JNull)],
      []]"

text \<open>A Device Token Record of the user-scoped query, in the same sense, and its six
  lines.\<close>

definition is_user_record :: "json \<Rightarrow> bool" where
  "is_user_record r =
     (has_fields [py ''token'', py ''device_id'', py ''platform'', py ''app_version'',
                  py ''updated_at''] r
      \<and> has_str_token r
      \<and> fields_printable [py ''device_id'', py ''platform'', py ''app_version'',
                           py ''updated_at''] r
      \<and> encodable (take 20 (token_chars r)))"

definition user_record_report :: "nat \<Rightarrow> json \<Rightarrow> line list" where
  "user_record_report i r =
     [[T ''  '', I (int i + 1), T ''. Token: '', V (JStr (take 20 (token_chars r))), T ''...''],
      [T ''     Device: '', V (shown r (py ''device_id'') JNull)],
      [T ''     Platform: '', V (shown r (py ''platform'') JNull)],
      [T ''     App Version: '', V (shown r (py ''app_version'') JNull)],
      [T ''     Updated: '', V (shown r (py ''updated_at'') JNull)],
      []]"

text \<open>A per-device outcome of a Dispatch Result: it has the three fields the report
  reads, and they can be written, the token in full. Then its two lines.\<close>

definition is_result_record :: "json \<Rightarrow> bool" where
  "is_result_record r =
     (has_fields [py ''device_id'', py ''platform'', py ''token''] r
      \<and> fields_printable [py ''device_id'', py ''platform'', py ''token''] r)"

definition result_record_report :: "nat \<Rightarrow> json \<Rightarrow> line list" where
  "result_record_report i r =
     [[T ''     '', I (int i + 1), T ''. Device: '', V (shown r (py ''device_id'') JNull),
       T '' ('', V (shown r (py ''platform'') JNull), T '')''],
      [T ''        Token: '', V (shown r (py ''token'') JNull)]]"

text \<open>
  The summary block of a Dispatch Result: nothing when the result has no summary, five
  lines when the summary is an object. \<open>summary_printable\<close> and \<open>message_printable\<close>
  say that what the report shows of the summary and of the message can be written.
\<close>

definition summary_is_object :: "json \<Rightarrow> bool" where
  "summary_is_object result =
     (case field result (py ''summary'') of
        None \<Rightarrow> True | Some (JObj kvs) \<Rightarrow> True | _ \<Rightarrow> False)"

definition summary_printable :: "json \<Rightarrow> bool" where
  "summary_printable result =
     (case field result (py ''summary'') of
        None \<Rightarrow> True
      | Some s \<Rightarrow>
          list_all (\<lambda>k. printable (shown s k (JStr (py ''N/A''))))
            [py ''total_tokens'', py ''notification_type'', py ''title'', py ''body''])"

definition message_printable :: "json \<Rightarrow> bool" where
  "message_printable result =
     printable (shown result (py ''message'') (JStr (py ''No message'')))"

definition summary_report :: "json \<Rightarrow> line list" where
  "summary_report result =
     (case field result (py ''summary'') of
        None \<Rightarrow> []
      | Some s \<Rightarrow>
          [[U 10, U 0x1F4CA, T '' Summary:''],
           [T ''   Total tokens: '', V (shown s (py ''total_tokens'') (JStr (py ''N/A'')))],
           [T ''   Type: '', V (shown s (py ''notification_type'') (JStr (py ''N/A'')))],
           [T ''   Title: '', V (shown s (py ''title'') (JStr (py ''N/A'')))],
           [T ''   Body: '', V (shown s (py ''body'') (JStr (py ''N/A'')))]])"

text \<open>The line that names the target of a notification.\<close>

definition target_line :: "ustr option \<Rightarrow> line" where
  "target_line user_id =
     (case truthy user_id of
        Some u \<Rightarrow> [T ''   Target: User '', S u]
      | None \<Rightarrow> [T ''   Target: All users''])"

text \<open>The reports of the records \<open>xs\<close>, numbered from \<open>i\<close>.\<close>

definition report_all :: "(nat \<Rightarrow> json \<Rightarrow> line list) \<Rightarrow> nat \<Rightarrow> json list \<Rightarrow> line list" where
  "report_all f i xs = concat (map (\<lambda>(j, r). f j r) (enumerate i xs))"


definition quiet :: "'a io \<Rightarrow> bool" where
  "quiet m = (\<forall>w. requests (snd (m w)) = requests w)"

section \<open>Example inputs\<close>

definition world0 :: world where
  "world0 = \<lparr>requests = [], out = []\<rparr>"

definition args0 :: args where
  "args0 = \<lparr>arg_supabase_url = py ''https://p.supabase.co/'',
            arg_supabase_key = py ''anon'',
            arg_test_token_registration = False,
            arg_test_edge_function = False,
            arg_send_test_notification = False,
            arg_user_id = None,
            arg_test_all_users = False,
            arg_get_user_tokens = None,
            arg_run_all_tests = False\<rparr>"

definition tester0 :: FCMTester where
  "tester0 = FCMTester_init (py ''https://p.supabase.co/'') (py ''anon'')"


text \<open>A backend that cannot be reached.\<close>

definition env_down :: env where
  "env_down =
     \<lparr>backend = (\<lambda>hist req. Inl (RequestError (py ''connection refused''))),
      unix_time = 1700000000\<rparr>"

text \<open>A backend that answers every request with status 200 and the body \<open>[]\<close>.\<close>

definition env_no_tokens :: env where
  "env_no_tokens =
     \<lparr>backend = (\<lambda>hist req. Inr \<lparr>status_code = 200, resp_text = py ''[]'',
                                   json_body = Some (JArr [])\<rparr>),
      unix_time = 1700000000\<rparr>"

text \<open>
  A backend that answers the first request of a run with status 500, the second with
  an empty list of tokens and every later one with status 200 and the body \<open>{}\<close>.
\<close>

definition env_unhealthy :: env where
  "env_unhealthy =
     \<lparr>backend = (\<lambda>hist req.
         if length hist = 0 then
           Inr \<lparr>status_code = 500, resp_text = py ''Internal Server Error'', json_body = None\<rparr>
         else if length hist = 1 then
           Inr \<lparr>status_code = 200, resp_text = py ''[]'', json_body = Some (JArr [])\<rparr>
         else
           Inr \<lparr>status_code = 200, resp_text = py ''{}'', json_body = Some (JObj [])\<rparr>),
      unix_time = 1700000000\<rparr>"

text \<open>A Device Token Record with a token of 36 characters, and a backend that answers
  every request with status 200 and the list of this one record.\<close>

definition record0 :: json where
  "record0 = JObj [(py ''user_id'', JStr (py ''u1'')),
                   (py ''token'', JStr (py ''abcdefghijklmnopqrstuvwxyz0123456789'')),
                   (py ''device_id'', JStr (py ''d1'')),
                   (py ''platform'', JStr (py ''ios'')),
                   (py ''app_version'', JStr (py ''1.0'')),
                   (py ''updated_at'', JStr (py ''2024-01-01''))]"

definition env_one_token :: env where
  "env_one_token =
     \<lparr>backend = (\<lambda>hist req. Inr \<lparr>status_code = 200, resp_text = py ''[...]'',
                                   json_body = Some (JArr [record0])\<rparr>),
      unix_time = 1700000000\<rparr>"

text \<open>A Dispatch Result with one per-device outcome, and a backend that answers every
  request with it.\<close>

definition result0 :: json where
  "result0 = JObj [(py ''message'', JStr (py ''sent'')),
                   (py ''results'', JArr [JObj [(py ''device_id'', JStr (py ''d1'')),
                                                (py ''platform'', JStr (py ''ios'')),
                                                (py ''token'', JStr (py ''abcdefghijklmnopqrstuvwxyz0123456789''))]]),
                   (py ''summary'', JObj [(py ''total_tokens'', JInt 1)])]"

definition env_sent :: env where
  "env_sent =
     \<lparr>backend = (\<lambda>hist req. Inr \<lparr>status_code = 200, resp_text = py ''{...}'',
                                   json_body = Some result0\<rparr>),
      unix_time = 1700000000\<rparr>"




section \<open>The health check\<close>


section \<open>The client's base address\<close>

lemma dropWhile_replicate_append: "P x \<Longrightarrow> dropWhile P (replicate n x @ ys) = dropWhile P ys"
  by (induction n) simp_all

lemma takeWhile_dropWhile_Nil: "takeWhile P (dropWhile P xs) = []"
  by (induction xs) simp_all

lemma rstrip_slash_replicate: "rstrip_slash (u @ replicate n 47) = rstrip_slash u"
  by (simp add: rstrip_slash_def dropWhile_replicate_append)

lemma rstrip_slash_no_trailing: "takeWhile (\<lambda>c. c = 47) (rev (rstrip_slash s)) = []"
  by (simp add: rstrip_slash_def takeWhile_dropWhile_Nil)

lemma rstrip_slash_decomp: "\<exists>n. s = rstrip_slash s @ replicate n 47"
proof -
  let ?t = "takeWhile (\<lambda>c. c = 47) (rev s)"
  have "?t = replicate (length ?t) 47"
    by (metis (mono_tags, lifting) replicate_eqI set_takeWhileD)
  moreover have "rev s = ?t @ dropWhile (\<lambda>c. c = 47) (rev s)"
    by simp
  ultimately have "rev s = replicate (length ?t) 47 @ dropWhile (\<lambda>c. c = 47) (rev s)"
    by simp
  then have "s = rev (replicate (length ?t) 47 @ dropWhile (\<lambda>c. c = 47) (rev s))"
    by (metis rev_rev_ident)
  then show ?thesis
    unfolding rstrip_slash_def by (metis rev_append rev_replicate)
qed

lemma rstrip_slash_id: "u = [] \<or> last u \<noteq> 47 \<Longrightarrow> rstrip_slash u = u"
  by (cases u rule: rev_cases) (simp_all add: rstrip_slash_def)

text \<open>
  C10. The constructor strips the trailing slashes (code point 47) of the base
  address and nothing else: for an address \<open>u\<close> that does not end in a slash,
  followed by any number of slashes, the client stores \<open>u\<close>. So two base addresses
  that differ only in the number of trailing slashes give the same client: its stored
  address carries no trailing slash, and every operation of the two clients sends the
  same request, to the same URL, and has the same effect.
\<close>

theorem base_address_trailing_slashes:
  "FCMTester_init (u @ replicate n 47) k = FCMTester_init (u @ replicate m 47) k
   \<and> takeWhile (\<lambda>c. c = 47) (rev (supabase_url (FCMTester_init (u @ replicate n 47) k))) = []
   \<and> request_of env (FCMTester_init (u @ replicate n 47) k) x
       = request_of env (FCMTester_init (u @ replicate m 47) k) x
   \<and> perform env (FCMTester_init (u @ replicate n 47) k) x w
       = perform env (FCMTester_init (u @ replicate m 47) k) x w
   \<and> perform_call env (FCMTester_init (u @ replicate n 47) k) x w
       = perform_call env (FCMTester_init (u @ replicate m 47) k) x w
   \<and> (\<exists>j. u @ replicate n 47
            = supabase_url (FCMTester_init (u @ replicate n 47) k) @ replicate j 47)
   \<and> (u = [] \<or> last u \<noteq> 47 \<longrightarrow>
        FCMTester_init (u @ replicate n 47) k =
          \<lparr>supabase_url = u, supabase_anon_key = k,
           headers = [(py ''apikey'', k),
                      (py ''Authorization'', py ''Bearer '' @ k),
                      (py ''Content-Type'', py ''application/json'')]\<rparr>
        \<and> map_option url (request_of env (FCMTester_init (u @ replicate n 47) k) Health)
            = Some (u @ py ''/functions/v1/send-test-notification'')
        \<and> map_option url (request_of env (FCMTester_init (u @ replicate n 47) k)
                             TokenRegistration)
            = Some (u @ py ''/rest/v1/rpc/get_all_active_fcm_tokens'')
        \<and> map_option url (request_of env (FCMTester_init (u @ replicate n 47) k)
                             (Send None True))
            = Some (u @ py ''/functions/v1/send-test-notification'')
        \<and> map_option url (request_of env (FCMTester_init (u @ replicate n 47) k)
                             (UserTokens v))
            = Some (u @ py ''/rest/v1/rpc/get_user_fcm_tokens''))"
proof (intro conjI impI)
  show "\<exists>j. u @ replicate n 47
            = supabase_url (FCMTester_init (u @ replicate n 47) k) @ replicate j 47"
    using rstrip_slash_decomp [of "u @ replicate n 47"]
    by (simp add: FCMTester_init_def)
qed (simp_all add: FCMTester_init_def rstrip_slash_replicate rstrip_slash_no_trailing
      rstrip_slash_id)

theorem base_address_trailing_slashes_witness:
  "supabase_url (FCMTester_init (py ''https://p.supabase.co///'') (py ''anon''))
     = py ''https://p.supabase.co''
   \<and> map_option url (request_of env_down
         (FCMTester_init (py ''https://p.supabase.co///'') (py ''anon'')) TokenRegistration)
       = Some (py ''https://p.supabase.co/rest/v1/rpc/get_all_active_fcm_tokens'')"
proof -
  have a: "py ''https://p.supabase.co'' @ replicate 3 47 = py ''https://p.supabase.co///''"
    by (simp add: py_def numeral_3_eq_3)
  have b: "py ''https://p.supabase.co'' = [] \<or> last (py ''https://p.supabase.co'') \<noteq> 47"
    by (simp add: py_def)
  from base_address_trailing_slashes [where u = "py ''https://p.supabase.co''" and n = 3
      and k = "py ''anon''" and env = env_down] b
  show ?thesis
    unfolding a by (simp add: py_def)
qed

section \<open>The dispatcher\<close>

lemma run_operations_append:
  "run_operations (\<lambda>w. w) f (xs @ ys) w =
     (case run_operations (\<lambda>w. w) f xs w of (oks, w1) \<Rightarrow>
        (case run_operations (\<lambda>w. w) f ys w1 of (oks', w2) \<Rightarrow> (oks @ oks', w2)))"
  by (induction xs arbitrary: w) (auto split: prod.splits)

lemma length_run_operations:
  "run_operations g f xs w = (oks, w') \<Longrightarrow> length oks = length xs"
  by (induction xs arbitrary: w oks) (fastforce split: prod.splits)+

lemma tally_snoc:
  "run_test (f x) (tally_of (run_operations (\<lambda>w. w) f xs w)) =
     tally_of (run_operations (\<lambda>w. w) f (xs @ [x]) w)"
  by (simp add: run_operations_append run_test_def tally_of_def split: prod.splits)

lemma tally_if:
  "(if b then run_test (f x) (tally_of (run_operations (\<lambda>w. w) f xs w))
    else tally_of (run_operations (\<lambda>w. w) f xs w)) =
     tally_of (run_operations (\<lambda>w. w) f (xs @ (if b then [x] else [])) w)"
  by (simp add: tally_snoc)

lemma tally_case:
  "(case v of Some u \<Rightarrow> run_test (f (g u)) (tally_of (run_operations (\<lambda>w. w) f xs w))
    | None \<Rightarrow> tally_of (run_operations (\<lambda>w. w) f xs w)) =
     tally_of (run_operations (\<lambda>w. w) f (xs @ (case v of Some u \<Rightarrow> [g u] | None \<Rightarrow> [])) w)"
  by (cases v) (simp_all add: tally_snoc)

lemma main_tests_aggregate:
  assumes "arg_run_all_tests a"
  shows "main_tests env a w = tally_of (run_plan env a w)"
  using assms
  by (simp add: main_tests_def run_plan_def aggregate_plan_def tally_of_def
      run_test_def blank_def Let_def split: prod.splits)

lemma main_tests_selective:
  assumes "\<not> arg_run_all_tests a"
  shows "main_tests env a w = tally_of (run_plan env a w)"
proof -
  let ?t = "FCMTester_init (arg_supabase_url a) (arg_supabase_key a)"
  let ?f = "perform env ?t"
  let ?run = "\<lambda>xs. tally_of (run_operations (\<lambda>w. w) ?f xs w)"
  let ?p1 = "if arg_test_edge_function a then [Health] else []"
  let ?p2 = "?p1 @ (if arg_test_token_registration a then [TokenRegistration] else [])"
  let ?p3 = "?p2 @ (if arg_send_test_notification a
                    then [Send (arg_user_id a) (arg_test_all_users a)] else [])"
  let ?p4 = "?p3 @ (case truthy (arg_get_user_tokens a) of Some u \<Rightarrow> [UserTokens u] | None \<Rightarrow> [])"
  have s0: "(0, 0, w) = ?run []"
    by (simp add: tally_of_def)
  have s1: "(if arg_test_edge_function a then run_test (test_edge_function_health env ?t) (?run [])
             else ?run []) = ?run ?p1"
    using tally_if [of "arg_test_edge_function a" ?f Health "[]" w]
    by (simp only: perform.simps append_Nil)
  have s2: "(if arg_test_token_registration a then run_test (test_token_registration env ?t) (?run ?p1)
             else ?run ?p1) = ?run ?p2"
    using tally_if [of "arg_test_token_registration a" ?f TokenRegistration ?p1 w]
    by (simp only: perform.simps)
  have s3: "(if arg_send_test_notification a
             then run_test (send_test_notification env ?t (arg_user_id a) (arg_test_all_users a)) (?run ?p2)
             else ?run ?p2) = ?run ?p3"
    using tally_if [of "arg_send_test_notification a" ?f
        "Send (arg_user_id a) (arg_test_all_users a)" ?p2 w]
    by (simp only: perform.simps)
  have s4: "(case truthy (arg_get_user_tokens a) of
               Some u \<Rightarrow> run_test (get_user_fcm_tokens env ?t u) (?run ?p3)
             | None \<Rightarrow> ?run ?p3) = ?run ?p4"
    using tally_case [where v = "truthy (arg_get_user_tokens a)" and f = ?f and g = UserTokens
        and xs = ?p3 and w = w]
    by (simp only: perform.simps)
  have "main_tests env a w =
          (case truthy (arg_get_user_tokens a) of
             Some u \<Rightarrow> run_test (get_user_fcm_tokens env ?t u) (?run ?p3)
           | None \<Rightarrow> ?run ?p3)"
    unfolding main_tests_def Let_def s0 s1 s2 s3 using assms by simp
  also have "\<dots> = ?run ?p4" by (rule s4)
  also have "\<dots> = tally_of (run_plan env a w)"
    using assms by (simp add: run_plan_def selective_plan_def)
  finally show ?thesis .
qed

lemma main_tests_eq_run_plan: "main_tests env a w = tally_of (run_plan env a w)"
  by (cases "arg_run_all_tests a") (simp_all add: main_tests_aggregate main_tests_selective)

lemma all_passed_iff: "(length (filter (\<lambda>ok. ok) oks) = length oks) = (\<forall>ok\<in>set oks. ok)"
proof (induction oks)
  case Nil
  show ?case by simp
next
  case (Cons x xs)
  have "length (filter (\<lambda>ok. ok) xs) \<noteq> Suc (length xs)"
    by (metis length_filter_le Suc_n_not_le_n)
  with Cons show ?case by (cases x) auto
qed

text \<open>
  C3. The exit status is 0 when \<open>success_count\<close> equals \<open>total_tests\<close> after the
  selected operations have run, and 1 otherwise; it is 0 exactly when every executed
  operation passed. When no operation is selected the tally is 0 of 0 and the exit
  status is 0.
\<close>

theorem exit_status_all_passed:
  "fst (main env a w) =
     (case main_tests env a w of (success_count, total_tests, w') \<Rightarrow>
        if success_count = total_tests then 0 else 1)
   \<and> (fst (main env a w) = 0) = (\<forall>ok\<in>set (fst (run_plan env a w)). ok)
   \<and> (\<not> arg_run_all_tests a \<and> \<not> arg_test_edge_function a \<and> \<not> arg_test_token_registration a
       \<and> \<not> arg_send_test_notification a \<and> arg_get_user_tokens a = None
      \<longrightarrow> main_tests env a w = (0, 0, w) \<and> fst (main env a w) = 0)"
proof (intro conjI impI)
  show e: "fst (main env a w) =
     (case main_tests env a w of (success_count, total_tests, w') \<Rightarrow>
        if success_count = total_tests then 0 else 1)"
    by (simp add: main_def Let_def split: prod.splits)
  show "(fst (main env a w) = 0) = (\<forall>ok\<in>set (fst (run_plan env a w)). ok)"
    unfolding e main_tests_eq_run_plan
    by (cases "run_plan env a w") (simp add: tally_of_def all_passed_iff)
  assume n: "\<not> arg_run_all_tests a \<and> \<not> arg_test_edge_function a \<and> \<not> arg_test_token_registration a
       \<and> \<not> arg_send_test_notification a \<and> arg_get_user_tokens a = None"
  then show m: "main_tests env a w = (0, 0, w)"
    by (simp add: main_tests_def)
  show "fst (main env a w) = 0"
    unfolding e m by simp
qed

theorem exit_status_all_passed_witness:
  "main_tests env_down args0 world0 = (0, 0, world0) \<and> fst (main env_down args0 world0) = 0"
  using exit_status_all_passed [of env_down args0 world0] by (simp add: args0_def)


section \<open>Requests sent by the operations\<close>

lemmas io_defs = bnd_def thn_def ret_def lift_def print_def println_def requests_post_def
  response_json_def try_except_def line_ok_def encodable_def

lemma quiet_ret: "quiet (ret x)"
  by (simp add: quiet_def ret_def)

lemma quiet_lift: "quiet (lift r)"
  by (simp add: quiet_def lift_def)

lemma quiet_print: "quiet (print l)"
  by (simp add: quiet_def print_def println_def)

lemma quiet_bnd: "quiet m \<Longrightarrow> (\<And>x. quiet (f x)) \<Longrightarrow> quiet (bnd m f)"
  unfolding quiet_def bnd_def
  by (auto split: prod.splits sum.splits) (metis snd_conv)+

lemma quiet_thn: "quiet m \<Longrightarrow> quiet k \<Longrightarrow> quiet (thn m k)"
  by (simp add: thn_def quiet_bnd)

lemma quiet_if: "quiet m \<Longrightarrow> quiet k \<Longrightarrow> quiet (if b then m else k)"
  by simp

lemma quiet_response_json: "quiet (response_json r)"
  by (simp add: response_json_def quiet_lift)

lemma quiet_for_enumerate: "(\<And>i x. quiet (body i x)) \<Longrightarrow> quiet (for_enumerate body i xs)"
  by (induction xs arbitrary: i) (simp_all add: quiet_ret quiet_thn)

lemmas quiet_intros = quiet_ret quiet_lift quiet_print quiet_bnd quiet_thn quiet_if
  quiet_response_json quiet_for_enumerate

lemma quiet_show_active_token: "quiet (show_active_token i x)"
  unfolding show_active_token_def by (intro quiet_intros)

lemma quiet_show_user_token: "quiet (show_user_token i x)"
  unfolding show_user_token_def by (intro quiet_intros)

lemma quiet_show_result: "quiet (show_result i x)"
  unfolding show_result_def by (intro quiet_intros)

lemma quiet_show_summary: "quiet (show_summary x)"
  unfolding show_summary_def by (intro quiet_intros)

lemma post_then_quiet:
  "(\<And>r. quiet (k r)) \<Longrightarrow>
     requests (snd (bnd (requests_post env u h p) k w)) =
       requests w @ [\<lparr>url = u, req_headers = h, payload = p\<rparr>]"
  unfolding quiet_def bnd_def requests_post_def Let_def
  by (auto split: sum.splits)

lemma requests_try_except: "requests (snd (try_except body msg w)) = requests (snd (body w))"
  by (auto simp: try_except_def println_def split: prod.splits sum.splits)

lemma health_requests:
  "requests (snd (test_edge_function_health env self w)) =
     requests w @ [\<lparr>url = supabase_url self @ py ''/functions/v1/send-test-notification'',
           req_headers = headers self,
           payload = Some (JObj [(py ''test'', JStr (py ''health_check''))])\<rparr>]"
  unfolding test_edge_function_health_def requests_try_except test_edge_function_health_try_def
  by (subst post_then_quiet) (intro quiet_intros | simp add: println_def)+

lemma token_registration_requests:
  "requests (snd (test_token_registration env self w)) =
     requests w @ [\<lparr>url = supabase_url self @ py ''/rest/v1/rpc/get_all_active_fcm_tokens'',
           req_headers = headers self, payload = None\<rparr>]"
  unfolding test_token_registration_def requests_try_except test_token_registration_try_def
  by (subst post_then_quiet) (intro quiet_intros quiet_show_active_token | simp add: println_def)+

lemma user_tokens_requests:
  "requests (snd (get_user_fcm_tokens env self u w)) =
     requests w @ [\<lparr>url = supabase_url self @ py ''/rest/v1/rpc/get_user_fcm_tokens'',
           req_headers = headers self,
           payload = Some (JObj [(py ''p_user_id'', JStr u)])\<rparr>]"
  unfolding get_user_fcm_tokens_def requests_try_except get_user_fcm_tokens_try_def
  by (subst post_then_quiet) (intro quiet_intros quiet_show_user_token | simp add: println_def)+

lemma send_try_requests:
  "requests (snd (try_except (send_test_notification_try env self p) msg w)) =
     requests w @ [\<lparr>url = supabase_url self @ py ''/functions/v1/send-test-notification'',
           req_headers = headers self, payload = Some p\<rparr>]"
  unfolding requests_try_except send_test_notification_try_def
  by (subst post_then_quiet) (intro quiet_intros quiet_show_result quiet_show_summary | simp)+

lemma perform_requests:
  "requests (snd (perform env self x w)) =
     requests w @ (case request_of env self x of None \<Rightarrow> [] | Some r \<Rightarrow> [r])"
proof (cases x)
  case Health
  then show ?thesis by (simp add: health_requests)
next
  case TokenRegistration
  then show ?thesis by (simp add: token_registration_requests)
next
  case (Send u b)
  then show ?thesis
    by (cases "truthy u")
       (simp_all add: send_test_notification_def Let_def send_try_requests println_def)
next
  case (UserTokens u)
  then show ?thesis by (simp add: user_tokens_requests)
qed



section \<open>The target of a test notification\<close>




section \<open>Reports\<close>

text \<open>
  C8. When the backend answers the token-registration check with status 200 and an
  empty list, the operation returns true, and its report ends with the notice that no
  active tokens were found.
\<close>

theorem no_tokens_is_success:
  "request_of env self TokenRegistration = Some req \<and> backend env (requests w) req = Inr r
     \<and> status_code r = 200 \<and> json_body r = Some (JArr [])
   \<longrightarrow> test_token_registration env self w =
         (True, \<lparr>requests = requests w @ [req],
                 out = out w @
                   [[U 0x1F50D, T '' Testing FCM token registration...''],
                    [U 0x2705, T '' Found '', I 0, T '' active FCM tokens in database''],
                    [U 0x26A0, U 0xFE0F,
                     T ''  No active FCM tokens found. Make sure to register tokens from your iOS app first.'']]\<rparr>)"
  by (auto simp: test_token_registration_def test_token_registration_try_def io_defs Let_def)

theorem no_tokens_is_success_witness:
  "test_token_registration env_no_tokens tester0 world0 =
     (True, \<lparr>requests = [\<lparr>url = py ''https://p.supabase.co/rest/v1/rpc/get_all_active_fcm_tokens'',
                           req_headers = headers tester0, payload = None\<rparr>],
             out = [[U 0x1F50D, T '' Testing FCM token registration...''],
                    [U 0x2705, T '' Found '', I 0, T '' active FCM tokens in database''],
                    [U 0x26A0, U 0xFE0F,
                     T ''  No active FCM tokens found. Make sure to register tokens from your iOS app first.'']]\<rparr>)"
  using no_tokens_is_success [of env_no_tokens tester0
      "\<lparr>url = py ''https://p.supabase.co/rest/v1/rpc/get_all_active_fcm_tokens'',
                           req_headers = headers tester0, payload = None\<rparr>" world0
      "\<lparr>status_code = 200, resp_text = py ''[]'', json_body = Some (JArr [])\<rparr>"]
  by (simp add: env_no_tokens_def tester0_def world0_def FCMTester_init_def rstrip_slash_def py_def)

text \<open>
  C7. In aggregate mode, when the health check fails and the token-registration check
  and the broadcast both pass, the run ends with the line "2/3 tests passed", the line
  of failure, and exit status 1.
\<close>

theorem aggregate_health_failure_report:
  "arg_run_all_tests a \<and> fst (run_plan env a w) = [False, True, True]
   \<longrightarrow> fst (main env a w) = 1
     \<and> out (snd (main env a w)) =
         out (snd (run_plan env a w)) @
           [[U 10, U 0x1F4CA, T '' Test Results: '', I 2, T ''/'', I 3, T '' tests passed''],
            [U 0x274C, T '' Some tests failed. Check the output above for details.'']]"
  by (cases "run_plan env a w")
     (simp add: main_def main_tests_eq_run_plan tally_of_def Let_def println_def)

lemma run_unhealthy:
  "fst (run_plan env_unhealthy (args0\<lparr>arg_run_all_tests := True\<rparr>) world0) = [False, True, True]"
  by (simp add: run_plan_def aggregate_plan_def args0_def world0_def env_unhealthy_def
      test_edge_function_health_def test_edge_function_health_try_def
      test_token_registration_def test_token_registration_try_def
      send_test_notification_def send_test_notification_try_def
      io_defs py_def Let_def FCMTester_init_def split: prod.splits)

theorem aggregate_health_failure_report_witness:
  "fst (run_plan env_unhealthy (args0\<lparr>arg_run_all_tests := True\<rparr>) world0) = [False, True, True]
   \<and> fst (main env_unhealthy (args0\<lparr>arg_run_all_tests := True\<rparr>) world0) = 1
   \<and> out (snd (main env_unhealthy (args0\<lparr>arg_run_all_tests := True\<rparr>) world0)) =
         out (snd (run_plan env_unhealthy (args0\<lparr>arg_run_all_tests := True\<rparr>) world0)) @
           [[U 10, U 0x1F4CA, T '' Test Results: '', I 2, T ''/'', I 3, T '' tests passed''],
            [U 0x274C, T '' Some tests failed. Check the output above for details.'']]"
  using aggregate_health_failure_report [of "args0\<lparr>arg_run_all_tests := True\<rparr>" env_unhealthy world0]
    run_unhealthy
  by (simp add: args0_def)

section \<open>The operations a run executes\<close>

text \<open>
  C4 (amended). Aggregate mode runs the health check, the token-registration check
  and the broadcast, in this order, each whatever the outcomes before it, so that three
  operations are counted. Selective mode runs the operations of \<open>selective_plan\<close>, in
  its order and each once: the health check, the token-registration check and the
  notification when their flags are set, and the per-user lookup when
  \<open>--get-user-tokens\<close> has a non-empty identifier.
\<close>

theorem main_runs_plan:
  "(arg_run_all_tests a \<longrightarrow>
      main_tests env a w =
        tally_of (run_operations (println [])
                    (perform env (FCMTester_init (arg_supabase_url a) (arg_supabase_key a)))
                    [Health, TokenRegistration, Send None True]
                    (println [U 0x1F680, T '' Running all FCM tests...'', U 10] w))
      \<and> fst (snd (main_tests env a w)) = 3)
   \<and> (\<not> arg_run_all_tests a \<longrightarrow>
      main_tests env a w =
        tally_of (run_operations (\<lambda>w. w)
                    (perform env (FCMTester_init (arg_supabase_url a) (arg_supabase_key a)))
                    (selective_plan a) w)
      \<and> fst (snd (main_tests env a w)) = length (selective_plan a))
   \<and> distinct (selective_plan a)"
proof (intro conjI impI)
  assume r: "arg_run_all_tests a"
  then show m: "main_tests env a w =
        tally_of (run_operations (println [])
                    (perform env (FCMTester_init (arg_supabase_url a) (arg_supabase_key a)))
                    [Health, TokenRegistration, Send None True]
                    (println [U 0x1F680, T '' Running all FCM tests...'', U 10] w))"
    unfolding main_tests_eq_run_plan run_plan_def aggregate_plan_def Let_def
    by (simp only: if_True)
  show "fst (snd (main_tests env a w)) = 3"
    unfolding m by (simp add: tally_of_def split: prod.splits)
next
  assume r: "\<not> arg_run_all_tests a"
  then show m: "main_tests env a w =
        tally_of (run_operations (\<lambda>w. w)
                    (perform env (FCMTester_init (arg_supabase_url a) (arg_supabase_key a)))
                    (selective_plan a) w)"
    unfolding main_tests_eq_run_plan run_plan_def Let_def
    by (simp only: if_False)
  show "fst (snd (main_tests env a w)) = length (selective_plan a)"
    unfolding m by (auto simp: tally_of_def length_run_operations split: prod.splits)
next
  show "distinct (selective_plan a)"
    by (simp add: selective_plan_def split: option.splits)
qed

theorem main_runs_plan_witness:
  "fst (snd (main_tests env_down (args0\<lparr>arg_run_all_tests := True\<rparr>) world0)) = 3
   \<and> selective_plan (args0\<lparr>arg_test_edge_function := True, arg_get_user_tokens := Some (py ''u1'')\<rparr>)
       = [Health, UserTokens (py ''u1'')]
   \<and> fst (snd (main_tests env_down
         (args0\<lparr>arg_test_edge_function := True, arg_get_user_tokens := Some (py ''u1'')\<rparr>) world0)) = 2"
proof -
  let ?a1 = "args0\<lparr>arg_run_all_tests := True\<rparr>"
  let ?a2 = "args0\<lparr>arg_test_edge_function := True, arg_get_user_tokens := Some (py ''u1'')\<rparr>"
  have r1: "arg_run_all_tests ?a1"
    by (simp add: args0_def)
  have r2: "\<not> arg_run_all_tests ?a2"
    by (simp add: args0_def)
  have p: "selective_plan ?a2 = [Health, UserTokens (py ''u1'')]"
    by (simp add: selective_plan_def args0_def py_def)
  from main_runs_plan [of ?a1 env_down world0] r1
  have "fst (snd (main_tests env_down ?a1 world0)) = 3"
    by blast
  moreover from main_runs_plan [of ?a2 env_down world0] r2
  have "fst (snd (main_tests env_down ?a2 world0)) = length (selective_plan ?a2)"
    by blast
  ultimately show ?thesis
    using p by simp
qed

text \<open>
  C4 as stated fails: \<open>--get-user-tokens\<close> supplied with an empty identifier is a
  supplied flag, and the lookup is not run.
\<close>

theorem supplied_empty_lookup_counterexample:
  "supplied_plan (args0\<lparr>arg_get_user_tokens := Some []\<rparr>) = [UserTokens []]
   \<and> main_tests env_down (args0\<lparr>arg_get_user_tokens := Some []\<rparr>) world0 = (0, 0, world0)
   \<and> main_tests env_down (args0\<lparr>arg_get_user_tokens := Some []\<rparr>) world0 \<noteq>
       tally_of (run_operations (\<lambda>w. w) (perform env_down tester0)
                   (supplied_plan (args0\<lparr>arg_get_user_tokens := Some []\<rparr>)) world0)"
  by (simp add: supplied_plan_def args0_def main_tests_def tally_of_def split: prod.splits)

section \<open>What the reports show\<close>

lemma show_active_token_ok:
  "is_active_record r \<Longrightarrow>
     show_active_token i r w = (Inr (), w\<lparr>out := out w @ active_record_report i r\<rparr>)"
  by (cases r)
     (auto simp: is_active_record_def has_fields_def fields_printable_def has_str_token_def
        token_chars_def shown_def active_record_report_def show_active_token_def io_defs
        split: option.splits json.splits)

lemma show_user_token_ok:
  "is_user_record r \<Longrightarrow>
     show_user_token i r w = (Inr (), w\<lparr>out := out w @ user_record_report i r\<rparr>)"
  by (cases r)
     (auto simp: is_user_record_def has_fields_def fields_printable_def has_str_token_def
        token_chars_def shown_def user_record_report_def show_user_token_def io_defs
        split: option.splits json.splits)

lemma show_result_ok:
  "is_result_record r \<Longrightarrow>
     show_result i r w = (Inr (), w\<lparr>out := out w @ result_record_report i r\<rparr>)"
  by (cases r)
     (auto simp: is_result_record_def has_fields_def fields_printable_def
        shown_def result_record_report_def show_result_def io_defs
        split: option.splits json.splits)

lemma for_enumerate_ok:
  assumes "\<And>i r w. r \<in> set xs \<Longrightarrow> body i r w = (Inr (), w\<lparr>out := out w @ f i r\<rparr>)"
  shows "for_enumerate body i xs w = (Inr (), w\<lparr>out := out w @ report_all f i xs\<rparr>)"
  using assms
proof (induction xs arbitrary: i w)
  case Nil
  show ?case by (simp add: ret_def report_all_def)
next
  case (Cons x xs)
  have "for_enumerate body (Suc i) xs (w\<lparr>out := out w @ f i x\<rparr>) =
      (Inr (), (w\<lparr>out := out w @ f i x\<rparr>)\<lparr>out := out (w\<lparr>out := out w @ f i x\<rparr>) @ report_all f (Suc i) xs\<rparr>)"
    by (rule Cons.IH) (simp add: Cons.prems)
  then show ?case
    by (simp add: thn_def bnd_def Cons.prems report_all_def)
qed


lemma for_enumerate_active:
  "\<forall>r\<in>set xs. is_active_record r \<Longrightarrow>
     for_enumerate show_active_token i xs w =
       (Inr (), w\<lparr>out := out w @ report_all active_record_report i xs\<rparr>)"
  by (rule for_enumerate_ok) (simp add: show_active_token_ok)

lemma for_enumerate_user:
  "\<forall>r\<in>set xs. is_user_record r \<Longrightarrow>
     for_enumerate show_user_token i xs w =
       (Inr (), w\<lparr>out := out w @ report_all user_record_report i xs\<rparr>)"
  by (rule for_enumerate_ok) (simp add: show_user_token_ok)

lemma for_enumerate_result:
  "\<forall>r\<in>set xs. is_result_record r \<Longrightarrow>
     for_enumerate show_result i xs w =
       (Inr (), w\<lparr>out := out w @ report_all result_record_report i xs\<rparr>)"
  by (rule for_enumerate_ok) (simp add: show_result_ok)

lemma token_registration_report:
  assumes "backend env (requests w)
             \<lparr>url = supabase_url self @ py ''/rest/v1/rpc/get_all_active_fcm_tokens'',
              req_headers = headers self, payload = None\<rparr> = Inr resp"
    and "status_code resp = 200" and "json_body resp = Some (JArr recs)" and "recs \<noteq> []"
    and "\<forall>r\<in>set (take 5 recs). is_active_record r"
  shows "test_token_registration env self w =
     (True, \<lparr>requests = requests w @
               [\<lparr>url = supabase_url self @ py ''/rest/v1/rpc/get_all_active_fcm_tokens'',
                 req_headers = headers self, payload = None\<rparr>],
             out = out w @
               [[U 0x1F50D, T '' Testing FCM token registration...''],
                [U 0x2705, T '' Found '', I (int (length recs)), T '' active FCM tokens in database''],
                [U 10, U 0x1F4F1, T '' Active FCM tokens:'']]
               @ report_all active_record_report 0 (take 5 recs)\<rparr>)"
  using assms
  by (simp add: test_token_registration_def test_token_registration_try_def io_defs Let_def
      for_enumerate_active)

lemma user_tokens_report:
  assumes "backend env (requests w)
             \<lparr>url = supabase_url self @ py ''/rest/v1/rpc/get_user_fcm_tokens'',
              req_headers = headers self,
              payload = Some (JObj [(py ''p_user_id'', JStr u)])\<rparr> = Inr resp"
    and "status_code resp = 200" and "json_body resp = Some (JArr recs)"
    and "\<forall>r\<in>set recs. is_user_record r"
    and "encodable u"
  shows "get_user_fcm_tokens env self u w =
     (True, \<lparr>requests = requests w @
               [\<lparr>url = supabase_url self @ py ''/rest/v1/rpc/get_user_fcm_tokens'',
                 req_headers = headers self,
                 payload = Some (JObj [(py ''p_user_id'', JStr u)])\<rparr>],
             out = out w @
               [[U 0x1F50D, T '' Getting FCM tokens for user: '', S u],
                [U 0x2705, T '' Found '', I (int (length recs)), T '' FCM tokens for user '', S u]]
               @ report_all user_record_report 0 recs\<rparr>)"
  using assms
  by (simp add: get_user_fcm_tokens_def get_user_fcm_tokens_try_def io_defs Let_def
      for_enumerate_user)

lemma show_summary_ok:
  "list_all (\<lambda>k. printable (shown (JObj kvs) k (JStr (py ''N/A''))))
      [py ''total_tokens'', py ''notification_type'', py ''title'', py ''body''] \<Longrightarrow>
   show_summary (JObj kvs) w =
     (Inr (), w\<lparr>out := out w @
        [[U 10, U 0x1F4CA, T '' Summary:''],
         [T ''   Total tokens: '', V (shown (JObj kvs) (py ''total_tokens'') (JStr (py ''N/A'')))],
         [T ''   Type: '', V (shown (JObj kvs) (py ''notification_type'') (JStr (py ''N/A'')))],
         [T ''   Title: '', V (shown (JObj kvs) (py ''title'') (JStr (py ''N/A'')))],
         [T ''   Body: '', V (shown (JObj kvs) (py ''body'') (JStr (py ''N/A'')))]]\<rparr>)"
  by (auto simp: show_summary_def io_defs shown_def py_def split: option.splits)

lemma send_report:
  assumes "truthy user_id \<noteq> None \<or> test_all_users"
    and "backend env (requests w)
             \<lparr>url = supabase_url self @ py ''/functions/v1/send-test-notification'',
              req_headers = headers self,
              payload = Some (notification_payload env user_id test_all_users)\<rparr> = Inr resp"
    and "status_code resp = 200" and "json_body resp = Some result"
    and "field result (py ''results'') = Some (JArr rs)"
    and "\<forall>r\<in>set (take 3 rs). is_result_record r"
    and "summary_is_object result"
    and "message_printable result" and "summary_printable result"
  shows "send_test_notification env self user_id test_all_users w =
     (True, \<lparr>requests = requests w @
               [\<lparr>url = supabase_url self @ py ''/functions/v1/send-test-notification'',
                 req_headers = headers self,
                 payload = Some (notification_payload env user_id test_all_users)\<rparr>],
             out = out w @
               [[U 0x1F4E4, T '' Sending test notification...''],
                target_line user_id,
                [U 0x2705, T '' Test notification sent successfully!''],
                [T ''   Message: '', V (shown result (py ''message'') (JStr (py ''No message'')))],
                [T ''   Sent to '', I (int (length rs)), T '' device(s)'']]
               @ report_all result_record_report 0 (take 3 rs)
               @ summary_report result\<rparr>)"
proof -
  obtain kvs where r: "result = JObj kvs"
    using assms(5) by (cases result) simp_all
  have k: "py ''results'' \<in> fst ` set kvs"
    using assms(5) r by (metis field.simps(1) map_of_eq_None_iff option.distinct(1))
  show ?thesis
  proof (cases "map_of kvs (py ''summary'')")
    case None
    then have n: "py ''summary'' \<notin> fst ` set kvs"
      by (simp add: map_of_eq_None_iff)
    from assms r k n None show ?thesis
      by (cases "truthy user_id")
         (auto simp: send_test_notification_def send_test_notification_try_def io_defs Let_def
           for_enumerate_result shown_def summary_report_def target_line_def
           message_printable_def split: option.splits)
  next
    case (Some s)
    then have n: "py ''summary'' \<in> fst ` set kvs"
      by (metis map_of_eq_None_iff option.distinct(1))
    from assms(7) r Some obtain skv where s: "s = JObj skv"
      by (cases s) (simp_all add: summary_is_object_def)
    from assms(9) r Some s
    have p: "list_all (\<lambda>k. printable (shown (JObj skv) k (JStr (py ''N/A''))))
      [py ''total_tokens'', py ''notification_type'', py ''title'', py ''body'']"
      by (simp add: summary_printable_def)
    from assms(1-6,8) r k n Some s show ?thesis
      by (cases "truthy user_id")
         (auto simp: send_test_notification_def send_test_notification_try_def io_defs Let_def
           for_enumerate_result shown_def summary_report_def target_line_def
           show_summary_ok [OF p] message_printable_def split: option.splits)
  qed
qed

section \<open>Faults inside an operation\<close>











subsection \<open>No fault leaves a method\<close>
































section \<open>How tokens are displayed\<close>

text \<open>
  C5. For Device Token Records that have their fields and a string token, and whose
  displayed text standard output can encode, the report of the token-registration
  check (first five records) and of the per-user lookup (all records) shows of each
  token its first 20 characters followed by \<open>...\<close>; the report of a notification
  shows the token of each of the first three per-device outcomes in full. These are
  the only lines that show a token.
\<close>

theorem token_display_truncation:
  "(request_of env self TokenRegistration = Some req \<and> backend env (requests w) req = Inr resp
      \<and> status_code resp = 200 \<and> json_body resp = Some (JArr recs) \<and> recs \<noteq> []
      \<and> (\<forall>r\<in>set (take 5 recs). is_active_record r)
    \<longrightarrow> test_token_registration env self w =
          (True, \<lparr>requests = requests w @ [req],
                  out = out w @
                    [[U 0x1F50D, T '' Testing FCM token registration...''],
                     [U 0x2705, T '' Found '', I (int (length recs)),
                      T '' active FCM tokens in database''],
                     [U 10, U 0x1F4F1, T '' Active FCM tokens:'']]
                    @ report_all active_record_report 0 (take 5 recs)\<rparr>))
   \<and> (request_of env self (UserTokens u) = Some req \<and> backend env (requests w) req = Inr resp
      \<and> status_code resp = 200 \<and> json_body resp = Some (JArr recs)
      \<and> (\<forall>r\<in>set recs. is_user_record r) \<and> encodable u
    \<longrightarrow> get_user_fcm_tokens env self u w =
          (True, \<lparr>requests = requests w @ [req],
                  out = out w @
                    [[U 0x1F50D, T '' Getting FCM tokens for user: '', S u],
                     [U 0x2705, T '' Found '', I (int (length recs)),
                      T '' FCM tokens for user '', S u]]
                    @ report_all user_record_report 0 recs\<rparr>))
   \<and> (request_of env self (Send user_id test_all_users) = Some req
      \<and> backend env (requests w) req = Inr resp
      \<and> status_code resp = 200 \<and> json_body resp = Some result
      \<and> field result (py ''results'') = Some (JArr rs)
      \<and> (\<forall>r\<in>set (take 3 rs). is_result_record r) \<and> summary_is_object result
      \<and> message_printable result \<and> summary_printable result
      \<and> op_text_ok (Send user_id test_all_users)
    \<longrightarrow> send_test_notification env self user_id test_all_users w =
          (True, \<lparr>requests = requests w @ [req],
                  out = out w @
                    [[U 0x1F4E4, T '' Sending test notification...''],
                     target_line user_id,
                     [U 0x2705, T '' Test notification sent successfully!''],
                     [T ''   Message: '',
                      V (shown result (py ''message'') (JStr (py ''No message'')))],
                     [T ''   Sent to '', I (int (length rs)), T '' device(s)'']]
                    @ report_all result_record_report 0 (take 3 rs)
                    @ summary_report result\<rparr>))
   \<and> active_record_report i x ! 1 =
        [T ''     Token: '', V (JStr (take 20 (token_chars x))), T ''...'']
   \<and> user_record_report i x ! 0 =
        [T ''  '', I (int i + 1), T ''. Token: '', V (JStr (take 20 (token_chars x))), T ''...'']
   \<and> result_record_report i x ! 1 = [T ''        Token: '', V (shown x (py ''token'') JNull)]
   \<and> (has_str_token x \<longrightarrow> shown x (py ''token'') JNull = JStr (token_chars x))
   \<and> length (take 20 (token_chars x)) = min 20 (length (token_chars x))"
proof (intro conjI impI)
  assume a: "request_of env self TokenRegistration = Some req \<and> backend env (requests w) req = Inr resp
      \<and> status_code resp = 200 \<and> json_body resp = Some (JArr recs) \<and> recs \<noteq> []
      \<and> (\<forall>r\<in>set (take 5 recs). is_active_record r)"
  then show "test_token_registration env self w =
          (True, \<lparr>requests = requests w @ [req],
                  out = out w @
                    [[U 0x1F50D, T '' Testing FCM token registration...''],
                     [U 0x2705, T '' Found '', I (int (length recs)),
                      T '' active FCM tokens in database''],
                     [U 10, U 0x1F4F1, T '' Active FCM tokens:'']]
                    @ report_all active_record_report 0 (take 5 recs)\<rparr>)"
    using token_registration_report [of env w self resp recs] by auto
next
  assume a: "request_of env self (UserTokens u) = Some req \<and> backend env (requests w) req = Inr resp
      \<and> status_code resp = 200 \<and> json_body resp = Some (JArr recs)
      \<and> (\<forall>r\<in>set recs. is_user_record r) \<and> encodable u"
  then show "get_user_fcm_tokens env self u w =
          (True, \<lparr>requests = requests w @ [req],
                  out = out w @
                    [[U 0x1F50D, T '' Getting FCM tokens for user: '', S u],
                     [U 0x2705, T '' Found '', I (int (length recs)),
                      T '' FCM tokens for user '', S u]]
                    @ report_all user_record_report 0 recs\<rparr>)"
    using user_tokens_report [of env w self u resp recs] by auto
next
  assume a: "request_of env self (Send user_id test_all_users) = Some req
      \<and> backend env (requests w) req = Inr resp
      \<and> status_code resp = 200 \<and> json_body resp = Some result
      \<and> field result (py ''results'') = Some (JArr rs)
      \<and> (\<forall>r\<in>set (take 3 rs). is_result_record r) \<and> summary_is_object result
      \<and> message_printable result \<and> summary_printable result
      \<and> op_text_ok (Send user_id test_all_users)"
  then have t: "truthy user_id \<noteq> None \<or> test_all_users"
    by (auto split: if_splits)
  with a have q: "req = \<lparr>url = supabase_url self @ py ''/functions/v1/send-test-notification'',
              req_headers = headers self,
              payload = Some (notification_payload env user_id test_all_users)\<rparr>"
    by (auto split: if_splits)
  show "send_test_notification env self user_id test_all_users w =
          (True, \<lparr>requests = requests w @ [req],
                  out = out w @
                    [[U 0x1F4E4, T '' Sending test notification...''],
                     target_line user_id,
                     [U 0x2705, T '' Test notification sent successfully!''],
                     [T ''   Message: '',
                      V (shown result (py ''message'') (JStr (py ''No message'')))],
                     [T ''   Sent to '', I (int (length rs)), T '' device(s)'']]
                    @ report_all result_record_report 0 (take 3 rs)
                    @ summary_report result\<rparr>)"
    unfolding q
    using a t send_report [of user_id test_all_users env w self resp result rs]
    unfolding q by blast
next
  show "active_record_report i x ! 1 =
        [T ''     Token: '', V (JStr (take 20 (token_chars x))), T ''...'']"
    by (simp add: active_record_report_def)
  show "user_record_report i x ! 0 =
        [T ''  '', I (int i + 1), T ''. Token: '', V (JStr (take 20 (token_chars x))), T ''...'']"
    by (simp add: user_record_report_def)
  show "result_record_report i x ! 1 = [T ''        Token: '', V (shown x (py ''token'') JNull)]"
    by (simp add: result_record_report_def)
  show "length (take 20 (token_chars x)) = min 20 (length (token_chars x))"
    by simp
next
  assume "has_str_token x"
  then show "shown x (py ''token'') JNull = JStr (token_chars x)"
    by (auto simp: has_str_token_def shown_def token_chars_def split: option.splits json.splits)
qed


theorem token_display_truncation_witness:
  "fst (test_token_registration env_one_token tester0 world0) = True
   \<and> out (snd (test_token_registration env_one_token tester0 world0)) ! 4 =
       [T ''     Token: '', V (JStr (py ''abcdefghijklmnopqrst'')), T ''...'']
   \<and> fst (get_user_fcm_tokens env_one_token tester0 (py ''u1'') world0) = True
   \<and> out (snd (get_user_fcm_tokens env_one_token tester0 (py ''u1'') world0)) ! 2 =
       [T ''  '', I 1, T ''. Token: '', V (JStr (py ''abcdefghijklmnopqrst'')), T ''...'']
   \<and> fst (send_test_notification env_sent tester0 None True world0) = True
   \<and> out (snd (send_test_notification env_sent tester0 None True world0)) ! 6 =
       [T ''        Token: '', V (JStr (py ''abcdefghijklmnopqrstuvwxyz0123456789''))]"
proof -
  have a: "test_token_registration env_one_token tester0 world0 =
          (True, \<lparr>requests = requests world0 @
                    [\<lparr>url = supabase_url tester0 @ py ''/rest/v1/rpc/get_all_active_fcm_tokens'',
                      req_headers = headers tester0, payload = None\<rparr>],
                  out = out world0 @
                    [[U 0x1F50D, T '' Testing FCM token registration...''],
                     [U 0x2705, T '' Found '', I (int (length [record0])),
                      T '' active FCM tokens in database''],
                     [U 10, U 0x1F4F1, T '' Active FCM tokens:'']]
                    @ report_all active_record_report 0 (take 5 [record0])\<rparr>)"
    using token_display_truncation [where env = env_one_token and self = tester0 and w = world0
        and req = "\<lparr>url = supabase_url tester0 @ py ''/rest/v1/rpc/get_all_active_fcm_tokens'',
                      req_headers = headers tester0, payload = None\<rparr>"
        and resp = "\<lparr>status_code = 200, resp_text = py ''[...]'',
                                   json_body = Some (JArr [record0])\<rparr>"
        and recs = "[record0]"]
    by (simp add: env_one_token_def is_active_record_def has_fields_def has_str_token_def
        fields_printable_def shown_def token_chars_def encodable_def record0_def py_def)
  have b: "get_user_fcm_tokens env_one_token tester0 (py ''u1'') world0 =
          (True, \<lparr>requests = requests world0 @
                    [\<lparr>url = supabase_url tester0 @ py ''/rest/v1/rpc/get_user_fcm_tokens'',
                      req_headers = headers tester0,
                      payload = Some (JObj [(py ''p_user_id'', JStr (py ''u1''))])\<rparr>],
                  out = out world0 @
                    [[U 0x1F50D, T '' Getting FCM tokens for user: '', S (py ''u1'')],
                     [U 0x2705, T '' Found '', I (int (length [record0])),
                      T '' FCM tokens for user '', S (py ''u1'')]]
                    @ report_all user_record_report 0 [record0]\<rparr>)"
    using token_display_truncation [where env = env_one_token and self = tester0 and w = world0 and u = "py ''u1''"
        and req = "\<lparr>url = supabase_url tester0 @ py ''/rest/v1/rpc/get_user_fcm_tokens'',
                      req_headers = headers tester0,
                      payload = Some (JObj [(py ''p_user_id'', JStr (py ''u1''))])\<rparr>"
        and resp = "\<lparr>status_code = 200, resp_text = py ''[...]'',
                                   json_body = Some (JArr [record0])\<rparr>"
        and recs = "[record0]"]
    by (simp add: env_one_token_def is_user_record_def has_fields_def has_str_token_def
        fields_printable_def shown_def token_chars_def encodable_def record0_def py_def)
  let ?rs = "[JObj [(py ''device_id'', JStr (py ''d1'')),
                    (py ''platform'', JStr (py ''ios'')),
                    (py ''token'', JStr (py ''abcdefghijklmnopqrstuvwxyz0123456789''))]]"
  have c: "send_test_notification env_sent tester0 None True world0 =
          (True, \<lparr>requests = requests world0 @
                    [\<lparr>url = supabase_url tester0 @ py ''/functions/v1/send-test-notification'',
                      req_headers = headers tester0,
                      payload = Some (notification_payload env_sent None True)\<rparr>],
                  out = out world0 @
                    [[U 0x1F4E4, T '' Sending test notification...''],
                     target_line None,
                     [U 0x2705, T '' Test notification sent successfully!''],
                     [T ''   Message: '',
                      V (shown result0 (py ''message'') (JStr (py ''No message'')))],
                     [T ''   Sent to '', I (int (length ?rs)), T '' device(s)'']]
                    @ report_all result_record_report 0 (take 3 ?rs)
                    @ summary_report result0\<rparr>)"
    using token_display_truncation [where env = env_sent and self = tester0 and w = world0
        and user_id = None and test_all_users = True
        and req = "\<lparr>url = supabase_url tester0 @ py ''/functions/v1/send-test-notification'',
                      req_headers = headers tester0,
                      payload = Some (notification_payload env_sent None True)\<rparr>"
        and resp = "\<lparr>status_code = 200, resp_text = py ''{...}'', json_body = Some result0\<rparr>"
        and result = result0 and rs = ?rs]
    by (simp add: env_sent_def is_result_record_def has_fields_def summary_is_object_def
        fields_printable_def shown_def encodable_def message_printable_def
        summary_printable_def result0_def py_def)
  show ?thesis
    unfolding a b c
    by (simp add: world0_def report_all_def enumerate_eq_zip active_record_report_def
        user_record_report_def result_record_report_def token_chars_def shown_def
        record0_def py_def upt_rec)
qed

end
